theory Spec2Isabelle
  imports Complex_Main
begin

section \<open>Values of the host language\<close>

text \<open>
  The client in \<^verbatim>\<open>a2a_client\<close> (third part of \<^verbatim>\<open>onekeySdkUtils.ts\<close>) handles
  loosely typed JSON payloads.  A parsed payload is a value of the datatype below; a
  property that is absent (JavaScript's \<^verbatim>\<open>undefined\<close>) is \<open>None\<close> of an option.
  Numbers are the integer-valued ones (status codes, error codes).  Strings are
  sequences of code units below 256.  An object keeps its properties as an association
  list that is read with \<open>map_of\<close>.
\<close>

datatype json =
    JNull
  | JBool bool
  | JNum int
  | JStr string
  | JArr "json list"
  | JObj "(string \<times> json) list"

text \<open>Truthiness, as used by \<^verbatim>\<open>if (x)\<close>, \<^verbatim>\<open>x || y\<close> and \<^verbatim>\<open>!!x\<close>.\<close>

fun truthy :: "json \<Rightarrow> bool" where
  "truthy JNull = False"
| "truthy (JBool b) = b"
| "truthy (JNum n) = (n \<noteq> 0)"
| "truthy (JStr s) = (s \<noteq> [])"
| "truthy (JArr xs) = True"
| "truthy (JObj kvs) = True"

fun truthy_opt :: "json option \<Rightarrow> bool" where
  "truthy_opt None = False"
| "truthy_opt (Some v) = truthy v"

text \<open>
  \<^verbatim>\<open>v.k\<close> on a value that is neither \<^verbatim>\<open>null\<close> nor \<^verbatim>\<open>undefined\<close>: an object
  answers from its own properties; a primitive or an array has none of the names the
  client reads (\<^verbatim>\<open>jsonrpc\<close>, \<^verbatim>\<open>error\<close>, \<^verbatim>\<open>result\<close>, \<^verbatim>\<open>code\<close>, \<^verbatim>\<open>message\<close>,
  \<^verbatim>\<open>data\<close>, \<^verbatim>\<open>capabilities\<close>, \<^verbatim>\<open>streaming\<close>, \<^verbatim>\<open>pushNotifications\<close>).
\<close>

fun get_prop :: "json \<Rightarrow> string \<Rightarrow> json option" where
  "get_prop (JObj kvs) k = map_of kvs k"
| "get_prop v k = None"

text \<open>\<^verbatim>\<open>typeof v === "object"\<close> holds of objects, arrays and \<^verbatim>\<open>null\<close>.\<close>

fun typeof_object :: "json \<Rightarrow> bool" where
  "typeof_object (JObj kvs) = True"
| "typeof_object (JArr xs) = True"
| "typeof_object JNull = True"
| "typeof_object v = False"

text \<open>\<^verbatim>\<open>k in v\<close> for a value whose \<^verbatim>\<open>typeof\<close> is object and that is not \<^verbatim>\<open>null\<close>.\<close>

fun has_prop :: "string \<Rightarrow> json \<Rightarrow> bool" where
  "has_prop k (JObj kvs) = (map_of kvs k \<noteq> None)"
| "has_prop k v = False"

subsection \<open>Strings\<close>

definition LF :: char where
  "LF = CHR 0x0A"

definition CR :: char where
  "CR = CHR 0x0D"

text \<open>The white space and line terminators that \<^verbatim>\<open>String.prototype.trim\<close> removes,
  among the code units below 256.\<close>

definition is_js_space :: "char \<Rightarrow> bool" where
  "is_js_space c =
     (c = CHR 0x09 \<or> c = CHR 0x0A \<or> c = CHR 0x0B \<or> c = CHR 0x0C \<or> c = CHR 0x0D
      \<or> c = CHR 0x20 \<or> c = CHR 0xA0)"

definition js_trim :: "string \<Rightarrow> string" where
  "js_trim s = rev (dropWhile is_js_space (rev (dropWhile is_js_space s)))"

definition startsWith :: "string \<Rightarrow> string \<Rightarrow> bool" where
  "startsWith s p = (take (length p) s = p)"

text \<open>\<^verbatim>\<open>s.replace(/\r/g, "")\<close>\<close>

definition remove_cr :: "string \<Rightarrow> string" where
  "remove_cr s = filter (\<lambda>c. c \<noteq> CR) s"

text \<open>
  \<^verbatim>\<open>s.split("\n\n")\<close>: the pieces between the occurrences of the separator, found
  from the left without overlap.  The result always has a last piece (the text after the
  last separator, possibly empty).
\<close>

fun split_nn :: "string \<Rightarrow> string list" where
  "split_nn [] = [[]]"
| "split_nn [c] = [[c]]"
| "split_nn (c # d # cs) =
     (if c = LF \<and> d = LF then [] # split_nn cs
      else (case split_nn (d # cs) of
              [] \<Rightarrow> [[c]]
            | p # ps \<Rightarrow> (c # p) # ps))"

section \<open>Errors\<close>

text \<open>
  What a call can throw: the client's own \<^verbatim>\<open>RpcError(code, message, data)\<close>, a plain
  \<^verbatim>\<open>Error(message)\<close>, the \<^verbatim>\<open>SyntaxError\<close> of \<^verbatim>\<open>JSON.parse\<close> and the
  \<^verbatim>\<open>TypeError\<close> of a property read on \<^verbatim>\<open>null\<close>.  The \<^verbatim>\<open>data\<close> of an
  \<^verbatim>\<open>RpcError\<close> is a payload of the server, absent, or the error that was wrapped.
\<close>

datatype js_error =
    RpcError "json option" string err_data
  | PlainError string
  | SyntaxError string
  | TypeError string
and err_data =
    NoData
  | ServerData json
  | Cause js_error

fun error_message :: "js_error \<Rightarrow> string" where
  "error_message (RpcError c m d) = m"
| "error_message (PlainError m) = m"
| "error_message (SyntaxError m) = m"
| "error_message (TypeError m) = m"

subsection \<open>Conversion to string\<close>

text \<open>Decimal digits of a number, as \<^verbatim>\<open>String(n)\<close> prints an integer.\<close>

fun nat_to_dec :: "nat \<Rightarrow> string" where
  "nat_to_dec n =
     (if n < 10 then [''0123456789'' ! n]
      else nat_to_dec (n div 10) @ [''0123456789'' ! (n mod 10)])"

declare nat_to_dec.simps [simp del]

definition int_to_dec :: "int \<Rightarrow> string" where
  "int_to_dec i = (if i < 0 then CHR ''-'' # nat_to_dec (nat (- i)) else nat_to_dec (nat i))"

fun join_comma :: "string list \<Rightarrow> string" where
  "join_comma [] = []"
| "join_comma [s] = s"
| "join_comma (s # t # ts) = s @ '','' @ join_comma (t # ts)"

text \<open>\<^verbatim>\<open>String(v)\<close>, which a template literal and the constructor of \<^verbatim>\<open>Error\<close> apply.\<close>

fun js_to_string :: "json \<Rightarrow> string" where
  "js_to_string JNull = ''null''"
| "js_to_string (JBool b) = (if b then ''true'' else ''false'')"
| "js_to_string (JNum n) = int_to_dec n"
| "js_to_string (JStr s) = s"
| "js_to_string (JArr xs) =
     join_comma (map (\<lambda>x. if x = JNull then [] else js_to_string x) xs)"
| "js_to_string (JObj kvs) = ''[object Object]''"

text \<open>The \<^verbatim>\<open>message\<close> of \<^verbatim>\<open>new Error(m)\<close>: empty when \<^verbatim>\<open>m\<close> is \<^verbatim>\<open>undefined\<close>.\<close>

fun message_arg :: "json option \<Rightarrow> string" where
  "message_arg None = []"
| "message_arg (Some v) = js_to_string v"

fun data_arg :: "json option \<Rightarrow> err_data" where
  "data_arg None = NoData"
| "data_arg (Some v) = ServerData v"

section \<open>The stream decoder\<close>

text \<open>
  \<^verbatim>\<open>JSON.parse\<close> belongs to the platform: it is a parameter \<open>parse\<close> that returns the
  value or the message of the \<^verbatim>\<open>SyntaxError\<close> it throws.
\<close>

type_synonym parser = "string \<Rightarrow> string + json"

text \<open>What the body of the \<^verbatim>\<open>try\<close> block does with one data line.\<close>

datatype frame_outcome = Yield json | Skip | Throw js_error

definition try_body :: "parser \<Rightarrow> string \<Rightarrow> frame_outcome" where
  "try_body parse dataLine =
     (case parse dataLine of
        Inl msg \<Rightarrow> Throw (SyntaxError msg)
      | Inr parsedData \<Rightarrow>
          if \<not> typeof_object parsedData \<or> parsedData = JNull
             \<or> \<not> (has_prop ''jsonrpc'' parsedData
                    \<and> get_prop parsedData ''jsonrpc'' = Some (JStr ''2.0''))
          then Skip
          else (case get_prop parsedData ''error'' of
                  Some e \<Rightarrow>
                    if truthy e
                    then Throw (RpcError (get_prop e ''code'')
                                  (message_arg (get_prop e ''message''))
                                  (data_arg (get_prop e ''data'')))
                    else (case get_prop parsedData ''result'' of
                            Some result \<Rightarrow> if result \<noteq> JNull then Yield result else Skip
                          | None \<Rightarrow> Skip)
                | None \<Rightarrow>
                    (case get_prop parsedData ''result'' of
                       Some result \<Rightarrow> if result \<noteq> JNull then Yield result else Skip
                     | None \<Rightarrow> Skip)))"

text \<open>
  One message of the \<^verbatim>\<open>for\<close> loop.  The \<^verbatim>\<open>catch (e)\<close> that closes the
  \<^verbatim>\<open>try\<close> block logs whatever the block threw and lets the loop go on, so a message
  either yields one event or nothing.
\<close>

definition handle_message :: "parser \<Rightarrow> string \<Rightarrow> json option" where
  "handle_message parse message =
     (if startsWith message ''data: '' then
        (let dataLine = js_trim (drop (length ''data: '') message) in
         if dataLine \<noteq> [] then
           (case try_body parse dataLine of
              Yield result \<Rightarrow> Some result
            | Skip \<Rightarrow> None
            | Throw e \<Rightarrow> None)
         else None)
      else None)"

text \<open>
  The \<^verbatim>\<open>while (true)\<close> loop over \<^verbatim>\<open>reader.read()\<close>: the chunks still to come are
  the list; the empty list is \<^verbatim>\<open>done\<close>, where what is left in the buffer is dropped.
  The result is the events yielded, in order.
\<close>

fun read_loop :: "parser \<Rightarrow> string \<Rightarrow> string list \<Rightarrow> json list" where
  "read_loop parse buffer [] = []"
| "read_loop parse buffer (value # rest) =
     (let lines = split_nn (remove_cr (buffer @ value)) in
      List.map_filter (handle_message parse) (butlast lines)
        @ read_loop parse (last lines) rest)"

text \<open>
  A \<^verbatim>\<open>Response\<close>: the status line and the body as the chunks its reader delivers
  (\<open>None\<close> for a response without body).  The chunks are the text chunks behind
  \<^verbatim>\<open>TextDecoderStream\<close>, which decodes incrementally: a character cut by a chunk
  boundary of the bytes is delivered whole with the later chunk, so the text chunks
  of a payload concatenate to its text however its bytes were cut.
\<close>

record response =
  resp_status :: int
  resp_statusText :: string
  resp_body :: "string list option"

definition resp_ok :: "response \<Rightarrow> bool" where
  "resp_ok r = (200 \<le> resp_status r \<and> resp_status r \<le> 299)"

definition resp_text :: "response \<Rightarrow> string" where
  "resp_text r = (case resp_body r of None \<Rightarrow> [] | Some chunks \<Rightarrow> concat chunks)"

text \<open>
  \<^verbatim>\<open>_handleStreamingResponse\<close>: the events the generator yields and how it ends
  (\<open>None\<close>: it returns; \<open>Some e\<close>: it throws \<open>e\<close>).
\<close>

definition handleStreamingResponse :: "parser \<Rightarrow> response \<Rightarrow> json list \<times> js_error option" where
  "handleStreamingResponse parse r =
     (case resp_body r of
        None \<Rightarrow>
          ([], Some (PlainError (''HTTP error '' @ int_to_dec (resp_status r) @ '': ''
                       @ resp_statusText r @ '' - Failed to establish stream.'')))
      | Some chunks \<Rightarrow>
          if \<not> resp_ok r
          then ([], Some (PlainError (''HTTP error '' @ int_to_dec (resp_status r) @ '': ''
                       @ resp_statusText r @ '' - Failed to establish stream.'')))
          else (read_loop parse [] chunks, None))"

text \<open>
  The events that a payload holds: every piece before a separator is a message, the
  piece after the last separator is the incomplete rest.
\<close>

definition events_of :: "parser \<Rightarrow> string \<Rightarrow> json list" where
  "events_of parse payload =
     List.map_filter (handle_message parse) (butlast (split_nn (remove_cr payload)))"

section \<open>Single calls\<close>

text \<open>
  \<^verbatim>\<open>_handleJsonResponse\<close>.  For a response that is not ok, the inner \<^verbatim>\<open>try\<close> parses
  the body and throws an \<^verbatim>\<open>RpcError\<close> when it holds an error; \<open>error_probe\<close> is what
  that block throws.  Its \<^verbatim>\<open>catch (parseError)\<close> is empty, so control always reaches
  the generic \<^verbatim>\<open>Error\<close> behind it.
\<close>

definition error_probe :: "parser \<Rightarrow> string \<Rightarrow> js_error option" where
  "error_probe parse responseBody =
     (case parse responseBody of
        Inl msg \<Rightarrow> Some (SyntaxError msg)
      | Inr parsedError \<Rightarrow>
          if parsedError = JNull
          then Some (TypeError ''Cannot read properties of null'')
          else (case get_prop parsedError ''error'' of
                  Some errorData \<Rightarrow>
                    if truthy errorData
                    then Some (RpcError (get_prop errorData ''code'')
                                 (message_arg (get_prop errorData ''message''))
                                 (data_arg (get_prop errorData ''data'')))
                    else None
                | None \<Rightarrow> None))"

definition http_error_text :: "response \<Rightarrow> string \<Rightarrow> string" where
  "http_error_text r responseBody =
     ''HTTP error '' @ int_to_dec (resp_status r) @ '': '' @ resp_statusText r
       @ (if responseBody \<noteq> [] then '' - '' @ responseBody else [])"

text \<open>The outer \<^verbatim>\<open>try\<close> block.\<close>

definition json_try :: "parser \<Rightarrow> response \<Rightarrow> js_error + json" where
  "json_try parse r =
     (if \<not> resp_ok r then
        (let responseBody = resp_text r in
         case error_probe parse responseBody of
           Some caught \<Rightarrow> Inl (PlainError (http_error_text r responseBody))
         | None \<Rightarrow> Inl (PlainError (http_error_text r responseBody)))
      else
        (case parse (resp_text r) of
           Inl msg \<Rightarrow> Inl (SyntaxError msg)
         | Inr jsonResponse \<Rightarrow>
             if \<not> typeof_object jsonResponse \<or> jsonResponse = JNull
                \<or> get_prop jsonResponse ''jsonrpc'' \<noteq> Some (JStr ''2.0'')
             then Inl (RpcError (Some (JNum (- 32603)))
                         ''Invalid JSON-RPC response structure received from server.'' NoData)
             else (case get_prop jsonResponse ''error'' of
                     Some e \<Rightarrow>
                       if truthy e
                       then Inl (RpcError (get_prop e ''code'')
                                   (message_arg (get_prop e ''message''))
                                   (data_arg (get_prop e ''data'')))
                       else (case get_prop jsonResponse ''result'' of
                               Some result \<Rightarrow> Inr (if truthy result then result else JNull)
                             | None \<Rightarrow> Inr JNull)
                   | None \<Rightarrow>
                       (case get_prop jsonResponse ''result'' of
                          Some result \<Rightarrow> Inr (if truthy result then result else JNull)
                        | None \<Rightarrow> Inr JNull))))"

text \<open>The outer \<^verbatim>\<open>catch\<close>: an \<^verbatim>\<open>RpcError\<close> goes on as it is, anything else is wrapped.\<close>

fun rethrow_wrapped :: "js_error \<Rightarrow> js_error" where
  "rethrow_wrapped (RpcError c m d) = RpcError c m d"
| "rethrow_wrapped e =
     RpcError (Some (JNum (- 32603))) (''Failed to process response: '' @ error_message e) (Cause e)"

definition handleJsonResponse :: "parser \<Rightarrow> response \<Rightarrow> js_error + json" where
  "handleJsonResponse parse r =
     (case json_try parse r of
        Inl e \<Rightarrow> Inl (rethrow_wrapped e)
      | Inr v \<Rightarrow> Inr v)"

subsection \<open>Requests\<close>

text \<open>
  What \<^verbatim>\<open>_generateRequestId\<close> reads from the platform at one call: the value that
  \<^verbatim>\<open>crypto.randomUUID()\<close> returns (\<open>None\<close> where that function does not exist) and the
  value of \<^verbatim>\<open>Date.now()\<close>, in milliseconds.
\<close>

record js_env =
  env_randomUUID :: "string option"
  env_now :: int

datatype request_id = IdString string | IdNumber int

definition generateRequestId :: "js_env \<Rightarrow> request_id" where
  "generateRequestId env =
     (case env_randomUUID env of
        Some uuid \<Rightarrow> IdString uuid
      | None \<Rightarrow> IdNumber (env_now env))"

record rpc_request =
  req_jsonrpc :: string
  req_id :: request_id
  req_method :: string
  req_params :: json

text \<open>
  How \<^verbatim>\<open>axios.post\<close> settles: it resolves with a response of status 2xx whose data is
  the parsed body; it rejects with an error that carries the response of another
  status, or with an error without response (no connection, timeout).
\<close>

datatype axios_error =
    HttpFailure string int string json
  | NoResponse string

datatype axios_outcome =
    AxiosOk int string json
  | AxiosReject axios_error

type_synonym network = "string \<Rightarrow> rpc_request \<Rightarrow> string \<Rightarrow> axios_outcome"

text \<open>
  The \<^verbatim>\<open>catch (networkError)\<close> of \<^verbatim>\<open>_makeHttpRequest\<close>.  \<open>HttpFailure\<close> holds the
  message of the error and the status, status text and data of its response.
\<close>

fun network_failure :: "axios_error \<Rightarrow> js_error" where
  "network_failure (NoResponse msg) =
     RpcError (Some (JNum (- 32603))) (''Network error: '' @ msg) (Cause (PlainError msg))"
| "network_failure (HttpFailure msg st stText data) =
     (let statusCode = JNum st;
          errorMessage = JStr (''HTTP '' @ int_to_dec st @ '': '' @ stText)
      in if truthy data \<and> typeof_object data \<and> data \<noteq> JNull \<and> has_prop ''error'' data
         then (case get_prop data ''error'' of
                 Some errorObj \<Rightarrow>
                   if errorObj = JNull
                   then TypeError ''Cannot read properties of null''
                   else
                     (let errorMessage' =
                            (case get_prop errorObj ''message'' of
                               Some m \<Rightarrow> if truthy m then m else errorMessage
                             | None \<Rightarrow> errorMessage);
                          statusCode' =
                            (case get_prop errorObj ''code'' of
                               Some c \<Rightarrow> if truthy c then c else statusCode
                             | None \<Rightarrow> statusCode)
                      in RpcError (Some statusCode')
                           (''Network error: '' @ js_to_string errorMessage')
                           (Cause (PlainError msg)))
               | None \<Rightarrow>
                   RpcError (Some statusCode)
                     (''Network error: '' @ js_to_string errorMessage)
                     (Cause (PlainError msg)))
         else RpcError (Some statusCode)
                (''Network error: '' @ js_to_string errorMessage)
                (Cause (PlainError msg)))"

text \<open>
  \<^verbatim>\<open>_makeHttpRequest\<close>: the request that is posted, and the \<^verbatim>\<open>Response\<close> rebuilt
  from what axios resolved with (its body is \<^verbatim>\<open>JSON.stringify\<close> of the data, a
  parameter) or the error thrown.  The headers are left out, and the statuses axios
  resolves with are taken to be ones that \<^verbatim>\<open>new Response\<close> accepts with a body.
\<close>

record client =
  baseUrl :: string
  cachedAgentCard :: json

definition new_client :: "string \<Rightarrow> client" where
  "new_client url =
     \<lparr> baseUrl = (if url \<noteq> [] \<and> last url = CHR ''/'' then butlast url else url),
       cachedAgentCard = JNull \<rparr>"

definition makeHttpRequest ::
  "js_env \<Rightarrow> network \<Rightarrow> (json \<Rightarrow> string) \<Rightarrow> client \<Rightarrow> string \<Rightarrow> json \<Rightarrow> string
     \<Rightarrow> rpc_request \<times> (js_error + response)" where
  "makeHttpRequest env post stringify cl method params acceptHeader =
     (let requestId = generateRequestId env;
          requestBody = \<lparr> req_jsonrpc = ''2.0'', req_id = requestId,
                          req_method = method, req_params = params \<rparr>
      in (requestBody,
          (case post (baseUrl cl) requestBody acceptHeader of
             AxiosOk st stText data \<Rightarrow>
               Inr \<lparr> resp_status = st, resp_statusText = stText,
                     resp_body = Some [stringify data] \<rparr>
           | AxiosReject networkError \<Rightarrow> Inl (network_failure networkError))))"

text \<open>The single calls: a request, then \<^verbatim>\<open>_handleJsonResponse\<close> on its response.\<close>

definition single_call ::
  "string \<Rightarrow> js_env \<Rightarrow> network \<Rightarrow> parser \<Rightarrow> (json \<Rightarrow> string) \<Rightarrow> client \<Rightarrow> json
     \<Rightarrow> rpc_request \<times> (js_error + json)" where
  "single_call method env post parse stringify cl params =
     (case makeHttpRequest env post stringify cl method params ''application/json'' of
        (sent, Inl e) \<Rightarrow> (sent, Inl e)
      | (sent, Inr httpResponse) \<Rightarrow> (sent, handleJsonResponse parse httpResponse))"

definition sendTask where
  "sendTask = single_call ''tasks/send''"

definition getTask where
  "getTask = single_call ''tasks/get''"

definition cancelTask where
  "cancelTask = single_call ''tasks/cancel''"

definition setTaskPushNotification where
  "setTaskPushNotification = single_call ''tasks/pushNotification/set''"

definition getTaskPushNotification where
  "getTaskPushNotification = single_call ''tasks/pushNotification/get''"

text \<open>The subscriptions: a request for an event stream, then the decoder on its response.\<close>

definition subscribe_call ::
  "string \<Rightarrow> js_env \<Rightarrow> network \<Rightarrow> parser \<Rightarrow> (json \<Rightarrow> string) \<Rightarrow> client \<Rightarrow> json
     \<Rightarrow> rpc_request \<times> json list \<times> js_error option" where
  "subscribe_call method env post parse stringify cl params =
     (case makeHttpRequest env post stringify cl method params ''text/event-stream'' of
        (sent, Inl e) \<Rightarrow> (sent, [], Some e)
      | (sent, Inr httpResponse) \<Rightarrow> (sent, handleStreamingResponse parse httpResponse))"

definition sendTaskSubscribe where
  "sendTaskSubscribe = subscribe_call ''tasks/sendSubscribe''"

definition resubscribeTask where
  "resubscribeTask = subscribe_call ''tasks/resubscribe''"

section \<open>The agent card\<close>

text \<open>How \<^verbatim>\<open>axios.get\<close> of the card settles.\<close>

datatype get_outcome =
    GetOk json
  | GetHttpFailure string int string
  | GetFailure string

text \<open>
  \<^verbatim>\<open>agentCard\<close> runs in two parts, with the \<^verbatim>\<open>await\<close> of the fetch between them.
  The first part answers from the cache (\<open>Some\<close>) or issues the fetch (\<open>None\<close>); the
  second part runs when the fetch has settled.
\<close>

definition agentCard_cached :: "client \<Rightarrow> json option" where
  "agentCard_cached cl =
     (if truthy (cachedAgentCard cl) then Some (cachedAgentCard cl) else None)"

definition cardUrl :: "client \<Rightarrow> string" where
  "cardUrl cl = baseUrl cl @ ''/agent-card''"

fun agentCard_settle :: "client \<Rightarrow> get_outcome \<Rightarrow> (js_error + json) \<times> client" where
  "agentCard_settle cl (GetOk acard) = (Inr acard, cl\<lparr>cachedAgentCard := acard\<rparr>)"
| "agentCard_settle cl (GetHttpFailure msg st stText) =
     (Inl (RpcError (Some (JNum (- 32603)))
             (''Could not retrieve agent card: '' @ ''HTTP error '' @ int_to_dec st
                @ '' fetching agent card from '' @ cardUrl cl @ '': '' @ stText)
             (Cause (PlainError msg))), cl)"
| "agentCard_settle cl (GetFailure msg) =
     (Inl (RpcError (Some (JNum (- 32603)))
             (''Could not retrieve agent card: '' @ msg)
             (Cause (PlainError msg))), cl)"

text \<open>
  One call of \<^verbatim>\<open>agentCard\<close> that nothing interleaves with: the result, the client
  afterwards and the number of fetches issued.  \<open>get\<close> is the network: how the fetch of
  a URL settles.
\<close>

definition agentCard ::
  "(string \<Rightarrow> get_outcome) \<Rightarrow> client \<Rightarrow> (js_error + json) \<times> client \<times> nat" where
  "agentCard get cl =
     (case agentCard_cached cl of
        Some acard \<Rightarrow> (Inr acard, cl, 0)
      | None \<Rightarrow>
          (case agentCard_settle cl (get (cardUrl cl)) of
             (res, cl') \<Rightarrow> (res, cl', 1)))"

text \<open>\<^verbatim>\<open>!!card.capabilities?.name\<close>\<close>

definition capability_flag :: "json \<Rightarrow> string \<Rightarrow> js_error + bool" where
  "capability_flag acard name =
     (if acard = JNull then Inl (TypeError ''Cannot read properties of null'')
      else (case get_prop acard ''capabilities'' of
              None \<Rightarrow> Inr False
            | Some caps \<Rightarrow>
                if caps = JNull then Inr False
                else Inr (truthy_opt (get_prop caps name))))"

text \<open>The \<^verbatim>\<open>try\<close> block of \<^verbatim>\<open>supports\<close>, then \<^verbatim>\<open>supports\<close> with its \<^verbatim>\<open>catch\<close>.\<close>

definition supports_try ::
  "(string \<Rightarrow> get_outcome) \<Rightarrow> client \<Rightarrow> string \<Rightarrow> (js_error + bool) \<times> client \<times> nat" where
  "supports_try get cl capability =
     (case agentCard get cl of
        (Inl e, cl', n) \<Rightarrow> (Inl e, cl', n)
      | (Inr acard, cl', n) \<Rightarrow>
          ((if capability = ''streaming'' then capability_flag acard ''streaming''
            else if capability = ''pushNotifications''
            then capability_flag acard ''pushNotifications''
            else Inr False), cl', n))"

definition supports ::
  "(string \<Rightarrow> get_outcome) \<Rightarrow> client \<Rightarrow> string \<Rightarrow> (js_error + bool) \<times> client \<times> nat" where
  "supports get cl capability =
     (case supports_try get cl capability of
        (Inl e, cl', n) \<Rightarrow> (Inr False, cl', n)
      | (Inr b, cl', n) \<Rightarrow> (Inr b, cl', n))"


subsection \<open>Calls in flight together\<close>

text \<open>
  Callers share one client.  Each call is not started, waits for its fetch, or has
  settled.  A step runs one part of one call to its end, as the event loop does; a
  schedule is the order in which the parts run.  \<open>net i\<close> is how the fetch of
  call \<open>i\<close> settles.
\<close>

datatype call_state = NotStarted | AwaitingFetch | Settled "js_error + json"

record sys =
  sys_client :: client
  sys_fetches :: nat
  sys_calls :: "call_state list"

definition call_step :: "(nat \<Rightarrow> get_outcome) \<Rightarrow> sys \<Rightarrow> nat \<Rightarrow> sys" where
  "call_step net s i =
     (if i < length (sys_calls s) then
        (case sys_calls s ! i of
           NotStarted \<Rightarrow>
             (case agentCard_cached (sys_client s) of
                Some acard \<Rightarrow> s\<lparr>sys_calls := (sys_calls s)[i := Settled (Inr acard)]\<rparr>
              | None \<Rightarrow> s\<lparr>sys_fetches := Suc (sys_fetches s),
                           sys_calls := (sys_calls s)[i := AwaitingFetch]\<rparr>)
         | AwaitingFetch \<Rightarrow>
             (case agentCard_settle (sys_client s) (net i) of
                (res, cl') \<Rightarrow> s\<lparr>sys_client := cl',
                                 sys_calls := (sys_calls s)[i := Settled res]\<rparr>)
         | Settled res \<Rightarrow> s)
      else s)"

definition run_schedule :: "(nat \<Rightarrow> get_outcome) \<Rightarrow> sys \<Rightarrow> nat list \<Rightarrow> sys" where
  "run_schedule net s schedule = foldl (call_step net) s schedule"


section \<open>The hardware wallet\<close>

text \<open>
  \<^verbatim>\<open>OneKeyHardwareWallet\<close>.  The order book, the transaction builder and the device
  are collaborators: what they answer is a parameter, and each use of them is recorded
  as an effect, in order.
\<close>

record wallet =
  isConnected :: bool
  address :: "string option"
  evm_address :: "string option"
  connectId :: "string option"
  deviceId :: "string option"
  orderBook :: "string option"

datatype transaction_type = Buy | Sell

record TransactionData =
  td_pair :: string
  td_amount :: string
  td_total :: string
  td_transactionType :: transaction_type
  td_poolId :: string
  td_poolName :: string
  td_baseCoinId :: string
  td_quoteCoinId :: string

record sui_action =
  act_action :: string
  act_amount :: string
  act_recipient :: string

datatype wallet_effect =
    NewTransaction string
  | PlaceOrder string string bool string
  | AddTransfer string string
  | BuildTransaction
  | DeviceSign string string string

record collaborators =
  placeOrder_throws :: "js_error option"
  build_result :: "js_error + string"
  sign_result :: "string \<Rightarrow> js_error + string"
  random_suffix :: string

record tx_result =
  digest :: string
  status :: string

text \<open>\<^verbatim>\<open>!x\<close> for a value that is a string or \<^verbatim>\<open>null\<close>.\<close>

fun falsy_str :: "string option \<Rightarrow> bool" where
  "falsy_str None = True"
| "falsy_str (Some s) = (s = [])"

text \<open>What follows the building of the transaction is the same in both methods.\<close>

definition build_and_sign ::
  "collaborators \<Rightarrow> wallet \<Rightarrow> wallet_effect list \<Rightarrow> wallet_effect list \<times> (js_error + tx_result)" where
  "build_and_sign co w done =
     (case build_result co of
        Inl err \<Rightarrow> (done @ [BuildTransaction], Inl err)
      | Inr serializedTx \<Rightarrow>
          if falsy_str (connectId w) \<or> falsy_str (deviceId w)
          then (done @ [BuildTransaction],
                Inl (PlainError ''Device connection information is missing''))
          else
            (case sign_result co serializedTx of
               Inl err \<Rightarrow>
                 (done @ [BuildTransaction,
                          DeviceSign (the (connectId w)) (the (deviceId w)) serializedTx],
                  Inl err)
             | Inr signature \<Rightarrow>
                 (done @ [BuildTransaction,
                          DeviceSign (the (connectId w)) (the (deviceId w)) serializedTx],
                  Inr \<lparr> digest = (if signature \<noteq> [] then signature
                                   else ''deepbook-transaction-'' @ random_suffix co),
                        status = ''success'' \<rparr>)))"

definition signAndExecuteTransaction ::
  "collaborators \<Rightarrow> wallet \<Rightarrow> TransactionData \<Rightarrow> wallet_effect list \<times> (js_error + tx_result)" where
  "signAndExecuteTransaction co w transactionData =
     (if \<not> isConnected w \<or> falsy_str (address w)
      then ([], Inl (PlainError ''Wallet not connected''))
      else if td_poolId transactionData = []
      then ([], Inl (PlainError ''Pool ID is required for DeepBook transactions''))
      else
        (let isBuy = (td_transactionType transactionData = Buy);
             tx = [NewTransaction (the (address w))]
         in case orderBook w of
              None \<Rightarrow> (tx, Inl (TypeError ''Cannot read properties of null''))
            | Some signer \<Rightarrow>
                (let placed = tx @ [PlaceOrder (td_baseCoinId transactionData)
                                      (td_quoteCoinId transactionData) isBuy
                                      (td_amount transactionData)]
                 in case placeOrder_throws co of
                      Some err \<Rightarrow> (placed, Inl err)
                    | None \<Rightarrow> build_and_sign co w placed)))"

definition signAndExecuteSuiTransaction ::
  "collaborators \<Rightarrow> wallet \<Rightarrow> sui_action list \<Rightarrow> wallet_effect list \<times> (js_error + tx_result)" where
  "signAndExecuteSuiTransaction co w transactionData =
     (if \<not> isConnected w \<or> falsy_str (address w)
      then ([], Inl (PlainError ''Wallet not connected''))
      else if length transactionData = 0
      then ([], Inl (PlainError ''Transaction data is empty''))
      else
        build_and_sign co w
          (NewTransaction (the (address w))
           # map (\<lambda>a. AddTransfer (act_amount a) (act_recipient a))
               (filter (\<lambda>a. act_action a = ''transfer'') transactionData)))"

section \<open>The trading analysis\<close>

text \<open>
  A number of the host language is a finite value, an infinity or \<^verbatim>\<open>NaN\<close>.  Sums,
  products and quotients of finite values are taken exactly (the rounding to the
  nearest double is left out); what the operations do with infinities and
  \<^verbatim>\<open>NaN\<close> is as the language defines it.  \<^verbatim>\<open>Math.round\<close>, \<^verbatim>\<open>Math.max\<close>,
  \<^verbatim>\<open>Math.min\<close> and the comparison are exact in the language as well.
\<close>

datatype jsnum = Fin rat | PosInf | NegInf | NaN

fun js_neg :: "jsnum \<Rightarrow> jsnum" where
  "js_neg (Fin a) = Fin (- a)"
| "js_neg PosInf = NegInf"
| "js_neg NegInf = PosInf"
| "js_neg NaN = NaN"

fun js_add :: "jsnum \<Rightarrow> jsnum \<Rightarrow> jsnum" where
  "js_add NaN y = NaN"
| "js_add x NaN = NaN"
| "js_add (Fin a) (Fin b) = Fin (a + b)"
| "js_add PosInf NegInf = NaN"
| "js_add NegInf PosInf = NaN"
| "js_add PosInf y = PosInf"
| "js_add NegInf y = NegInf"
| "js_add x PosInf = PosInf"
| "js_add x NegInf = NegInf"

definition js_sub :: "jsnum \<Rightarrow> jsnum \<Rightarrow> jsnum" where
  "js_sub x y = js_add x (js_neg y)"

text \<open>The sign of a value that is not \<^verbatim>\<open>NaN\<close>: \<open>-1\<close>, \<open>0\<close> or \<open>1\<close>.\<close>

fun js_sign :: "jsnum \<Rightarrow> int" where
  "js_sign (Fin a) = (if a < 0 then - 1 else if a = 0 then 0 else 1)"
| "js_sign PosInf = 1"
| "js_sign NegInf = - 1"
| "js_sign NaN = 0"

fun js_mul :: "jsnum \<Rightarrow> jsnum \<Rightarrow> jsnum" where
  "js_mul NaN y = NaN"
| "js_mul x NaN = NaN"
| "js_mul (Fin a) (Fin b) = Fin (a * b)"
| "js_mul x y =
     (if js_sign x * js_sign y = 0 then NaN
      else if js_sign x * js_sign y > 0 then PosInf else NegInf)"

text \<open>Division by a finite value other than zero, which is all the analysis uses.\<close>

fun js_div :: "jsnum \<Rightarrow> rat \<Rightarrow> jsnum" where
  "js_div NaN d = NaN"
| "js_div (Fin a) d = Fin (a / d)"
| "js_div PosInf d = (if d > 0 then PosInf else NegInf)"
| "js_div NegInf d = (if d > 0 then NegInf else PosInf)"

fun js_abs :: "jsnum \<Rightarrow> jsnum" where
  "js_abs (Fin a) = Fin \<bar>a\<bar>"
| "js_abs PosInf = PosInf"
| "js_abs NegInf = PosInf"
| "js_abs NaN = NaN"


fun js_le :: "jsnum \<Rightarrow> jsnum \<Rightarrow> bool" where
  "js_le NaN y = False"
| "js_le x NaN = False"
| "js_le (Fin a) (Fin b) = (a \<le> b)"
| "js_le NegInf y = True"
| "js_le x PosInf = True"
| "js_le PosInf y = False"
| "js_le x NegInf = False"


definition js_gt :: "jsnum \<Rightarrow> jsnum \<Rightarrow> bool" where
  "js_gt x y = (js_le y x \<and> x \<noteq> y)"



record TradingPair =
  tp_id :: string
  tp_baseCoin :: string
  tp_baseCoinId :: string
  tp_quoteCoin :: string
  tp_quoteCoinId :: string
  tp_pair :: string
  tp_price :: jsnum
  tp_volume24h :: jsnum
  tp_marketCap :: jsnum
  tp_change24h :: jsnum
  tp_volatility :: jsnum
  tp_liquidity :: jsnum
  tp_poolId :: string
  tp_poolName :: string


definition rawScore :: "TradingPair \<Rightarrow> jsnum" where
  "rawScore pairData =
     (let volumeScore = js_mul (js_div (tp_volume24h pairData) 15000000) (Fin 3);
          changeScore = js_mul (js_div (tp_change24h pairData) 10) (Fin 3);
          volatilityScore =
            js_mul (js_sub (Fin 1)
                      (js_div (js_abs (js_sub (tp_volatility pairData) (Fin (5 / 100)))) (5 / 100)))
                   (Fin 2);
          liquidityScore = js_mul (tp_liquidity pairData) (Fin 2)
      in js_add (js_add (js_add volumeScore changeScore) volatilityScore) liquidityScore)"




section \<open>A reader for JSON texts\<close>

text \<open>
  The properties below hold for every \<open>parse\<close>.  To run the client on concrete
  texts, \<open>json_parse\<close> reads the JSON texts whose numbers are integers and whose
  strings use no \<^verbatim>\<open>\u\<close> escape; on every other text it reports a syntax error.
  A repeated key keeps its first place and takes the last value, as
  \<^verbatim>\<open>JSON.parse\<close> builds the object.
\<close>

definition is_json_ws :: "char \<Rightarrow> bool" where
  "is_json_ws c = (c = CHR 0x20 \<or> c = CHR 0x09 \<or> c = CHR 0x0A \<or> c = CHR 0x0D)"

definition skip_ws :: "string \<Rightarrow> string" where
  "skip_ws s = dropWhile is_json_ws s"

definition is_digit :: "char \<Rightarrow> bool" where
  "is_digit c = (c \<in> set ''0123456789'')"

definition digit_val :: "char \<Rightarrow> int" where
  "digit_val c = of_char c - 48"

definition digits_val :: "string \<Rightarrow> int" where
  "digits_val ds = foldl (\<lambda>n c. 10 * n + digit_val c) 0 ds"

fun set_prop :: "string \<Rightarrow> json \<Rightarrow> (string \<times> json) list \<Rightarrow> (string \<times> json) list" where
  "set_prop k v [] = [(k, v)]"
| "set_prop k v (p # ps) = (if fst p = k then (k, v) # ps else p # set_prop k v ps)"

text \<open>The characters of a string up to its closing quote, and the text behind it.\<close>

fun read_string :: "string \<Rightarrow> string \<Rightarrow> (string \<times> string) option" where
  "read_string acc [] = None"
| "read_string acc [c] = (if c = CHR 0x22 then Some (rev acc, []) else None)"
| "read_string acc (c # e # cs) =
     (if c = CHR 0x22 then Some (rev acc, e # cs)
      else if c = CHR 0x5C then
        (if e = CHR 0x22 \<or> e = CHR 0x5C \<or> e = CHR ''/'' then read_string (e # acc) cs
         else if e = CHR ''n'' then read_string (CHR 0x0A # acc) cs
         else if e = CHR ''r'' then read_string (CHR 0x0D # acc) cs
         else if e = CHR ''t'' then read_string (CHR 0x09 # acc) cs
         else if e = CHR ''b'' then read_string (CHR 0x08 # acc) cs
         else if e = CHR ''f'' then read_string (CHR 0x0C # acc) cs
         else None)
      else if (of_char c :: nat) < 32 then None
      else read_string (c # acc) (e # cs))"

text \<open>An integer: an optional minus sign and digits without a leading zero.\<close>

definition read_number :: "string \<Rightarrow> (json \<times> string) option" where
  "read_number s =
     (let neg = (s \<noteq> [] \<and> hd s = CHR ''-'');
          body = (if neg then tl s else s);
          ds = takeWhile is_digit body;
          rest = dropWhile is_digit body
      in if ds = [] \<or> (length ds > 1 \<and> hd ds = CHR ''0'') then None
         else if rest \<noteq> [] \<and> (hd rest = CHR ''.'' \<or> hd rest = CHR ''e'' \<or> hd rest = CHR ''E'')
         then None
         else Some (JNum (if neg then - digits_val ds else digits_val ds), rest))"

fun read_value :: "nat \<Rightarrow> string \<Rightarrow> (json \<times> string) option"
  and read_elements :: "nat \<Rightarrow> json list \<Rightarrow> string \<Rightarrow> (json \<times> string) option"
  and read_members :: "nat \<Rightarrow> (string \<times> json) list \<Rightarrow> string \<Rightarrow> (json \<times> string) option"
where
  "read_value 0 s = None"
| "read_value (Suc n) s =
     (case skip_ws s of
        [] \<Rightarrow> None
      | c # cs \<Rightarrow>
          if c = CHR ''{'' then
            (case skip_ws cs of
               [] \<Rightarrow> None
             | d # ds \<Rightarrow> if d = CHR ''}'' then Some (JObj [], ds) else read_members n [] cs)
          else if c = CHR ''['' then
            (case skip_ws cs of
               [] \<Rightarrow> None
             | d # ds \<Rightarrow> if d = CHR '']'' then Some (JArr [], ds) else read_elements n [] cs)
          else if c = CHR 0x22 then
            (case read_string [] cs of
               None \<Rightarrow> None
             | Some (str, rest) \<Rightarrow> Some (JStr str, rest))
          else if take 4 (c # cs) = ''true'' then Some (JBool True, drop 4 (c # cs))
          else if take 5 (c # cs) = ''false'' then Some (JBool False, drop 5 (c # cs))
          else if take 4 (c # cs) = ''null'' then Some (JNull, drop 4 (c # cs))
          else read_number (c # cs))"
| "read_elements 0 acc s = None"
| "read_elements (Suc n) acc s =
     (case read_value n s of
        None \<Rightarrow> None
      | Some (v, rest) \<Rightarrow>
          (case skip_ws rest of
             [] \<Rightarrow> None
           | d # ds \<Rightarrow>
               if d = CHR '','' then read_elements n (acc @ [v]) ds
               else if d = CHR '']'' then Some (JArr (acc @ [v]), ds)
               else None))"
| "read_members 0 acc s = None"
| "read_members (Suc n) acc s =
     (case skip_ws s of
        [] \<Rightarrow> None
      | q # qs \<Rightarrow>
          if q \<noteq> CHR 0x22 then None
          else
            (case read_string [] qs of
               None \<Rightarrow> None
             | Some (k, rest) \<Rightarrow>
                 (case skip_ws rest of
                    [] \<Rightarrow> None
                  | col # rest' \<Rightarrow>
                      if col \<noteq> CHR '':'' then None
                      else
                        (case read_value n rest' of
                           None \<Rightarrow> None
                         | Some (v, rest'') \<Rightarrow>
                             (case skip_ws rest'' of
                                [] \<Rightarrow> None
                              | d # ds \<Rightarrow>
                                  if d = CHR '','' then read_members n (set_prop k v acc) ds
                                  else if d = CHR ''}'' then Some (JObj (set_prop k v acc), ds)
                                  else None)))))"

definition json_parse :: parser where
  "json_parse s =
     (case read_value (Suc (length s)) s of
        None \<Rightarrow> Inl ''Unexpected token in JSON''
      | Some (v, rest) \<Rightarrow>
          if skip_ws rest = [] then Inr v else Inl ''Unexpected token in JSON'')"

text \<open>\<^verbatim>\<open>JSON.stringify\<close> on these values, in its compact form.\<close>

definition escape_char :: "char \<Rightarrow> string" where
  "escape_char c =
     (if c = CHR 0x22 then [CHR 0x5C, CHR 0x22]
      else if c = CHR 0x5C then [CHR 0x5C, CHR 0x5C]
      else if c = CHR 0x0A then [CHR 0x5C, CHR ''n'']
      else if c = CHR 0x0D then [CHR 0x5C, CHR ''r'']
      else if c = CHR 0x09 then [CHR 0x5C, CHR ''t'']
      else if c = CHR 0x08 then [CHR 0x5C, CHR ''b'']
      else if c = CHR 0x0C then [CHR 0x5C, CHR ''f'']
      else [c])"

definition quote :: "string \<Rightarrow> string" where
  "quote s = CHR 0x22 # concat (map escape_char s) @ [CHR 0x22]"

fun json_stringify :: "json \<Rightarrow> string"
  and stringify_members :: "(string \<times> json) list \<Rightarrow> string list"
where
  "json_stringify JNull = ''null''"
| "json_stringify (JBool b) = (if b then ''true'' else ''false'')"
| "json_stringify (JNum n) = int_to_dec n"
| "json_stringify (JStr s) = quote s"
| "json_stringify (JArr xs) = ''['' @ join_comma (map json_stringify xs) @ '']''"
| "json_stringify (JObj kvs) = ''{'' @ join_comma (stringify_members kvs) @ ''}''"
| "stringify_members [] = []"
| "stringify_members (kv # kvs) =
     (quote (fst kv) @ '':'' @ json_stringify (snd kv)) # stringify_members kvs"

section \<open>Frames on the wire\<close>






section \<open>Servers and schedules of the examples\<close>






text \<open>A server that answers every request with status 404 and an error body.\<close>

definition task_not_found_server :: network where
  "task_not_found_server url request acceptHeader =
     AxiosReject (HttpFailure ''Request failed with status code 404'' 404 ''Not Found''
       (JObj [(''error'', JObj [(''code'', JNum (- 32000)),
                                (''message'', JStr ''task not found'')])]))"



definition unreachable_server :: "string \<Rightarrow> get_outcome" where
  "unreachable_server url = GetFailure ''Network Error''"


text \<open>A client, a platform without \<^verbatim>\<open>crypto.randomUUID\<close> and an envelope.\<close>

definition local_client :: client where
  "local_client = new_client ''http://localhost:41241''"

definition legacy_env :: "int \<Rightarrow> js_env" where
  "legacy_env now = \<lparr>env_randomUUID = None, env_now = now\<rparr>"



text \<open>A wallet that was never connected, collaborators that all succeed, an order.\<close>

definition fresh_wallet :: wallet where
  "fresh_wallet = \<lparr>isConnected = False, address = None, evm_address = None,
                    connectId = None, deviceId = None, orderBook = None\<rparr>"

definition willing_collaborators :: collaborators where
  "willing_collaborators =
     \<lparr>placeOrder_throws = None, build_result = Inr ''00ab'',
      sign_result = Inr, random_suffix = ''k3j9x''\<rparr>"

definition buy_order :: TransactionData where
  "buy_order = \<lparr>td_pair = ''SUI/USDC'', td_amount = ''1'', td_total = ''0'',
                 td_transactionType = Buy, td_poolId = ''0xpool'', td_poolName = ''SUI_USDC'',
                 td_baseCoinId = ''0x2::sui::SUI'', td_quoteCoinId = ''0xusdc''\<rparr>"

definition one_transfer :: "sui_action list" where
  "one_transfer = [\<lparr>act_action = ''transfer'', act_amount = ''1'', act_recipient = ''0xabc''\<rparr>]"




section \<open>Properties of the stream decoder\<close>

subsection \<open>Splitting and chunks\<close>


lemma split_nn_nonempty: "split_nn s \<noteq> []"
  by (induction s rule: split_nn.induct) (simp_all split: list.split)

lemma split_nn_other:
  "\<not> (c = LF \<and> d = LF) \<Longrightarrow> split_nn (d # cs) = p # ps \<Longrightarrow> split_nn (c # d # cs) = (c # p) # ps"
  by simp

lemma split_nn_single: "split_nn s = [p] \<Longrightarrow> p = s"
proof (induction s arbitrary: p rule: split_nn.induct)
  case (3 c d cs)
  from 3(3) have ncd: "\<not> (c = LF \<and> d = LF)"
    using split_nn_nonempty [of cs] by auto
  obtain q qs where q: "split_nn (d # cs) = q # qs"
    using split_nn_nonempty [of "d # cs"] by (cases "split_nn (d # cs)") auto
  with 3(3) ncd have "qs = []" "p = c # q" by auto
  with 3(2) [OF ncd] q show ?case by simp
qed simp_all

lemma split_nn_append:
  "split_nn (a @ b) = butlast (split_nn a) @ split_nn (last (split_nn a) @ b)"
proof (induction a rule: split_nn.induct)
  case 1
  then show ?case by simp
next
  case (2 c)
  then show ?case by simp
next
  case (3 c d cs)
  show ?case
  proof (cases "c = LF \<and> d = LF")
    case True
    with 3(1) show ?thesis by (simp add: split_nn_nonempty)
  next
    case False
    note ih = 3(2) [OF False]
    obtain p ps where pps: "split_nn (d # cs) = p # ps"
      using split_nn_nonempty [of "d # cs"] by (cases "split_nn (d # cs)") auto
    have whole: "split_nn (c # d # cs) = (c # p) # ps"
      by (rule split_nn_other [OF False pps])
    show ?thesis
    proof (cases ps)
      case Nil
      with pps have p: "p = d # cs" by (simp add: split_nn_single)
      have "butlast (split_nn (c # d # cs)) @ split_nn (last (split_nn (c # d # cs)) @ b)
            = split_nn (c # d # cs @ b)"
        unfolding whole Nil p by simp
      then show ?thesis by simp
    next
      case (Cons q qs)
      obtain r rs where r: "split_nn (last (q # qs) @ b) = r # rs"
        using split_nn_nonempty [of "last (q # qs) @ b"]
        by (cases "split_nn (last (q # qs) @ b)") auto
      have "split_nn (d # cs @ b) = p # (butlast (q # qs) @ split_nn (last (q # qs) @ b))"
        using ih pps Cons by simp
      then have "split_nn (c # d # cs @ b)
                 = (c # p) # (butlast (q # qs) @ split_nn (last (q # qs) @ b))"
        by (rule split_nn_other [OF False])
      moreover have "butlast (split_nn (c # d # cs)) @ split_nn (last (split_nn (c # d # cs)) @ b)
                 = (c # p) # (butlast (q # qs) @ split_nn (last (q # qs) @ b))"
        unfolding whole Cons by simp
      ultimately show ?thesis by simp
    qed
  qed
qed

lemma split_nn_last_clean: "split_nn (last (split_nn s)) = [last (split_nn s)]"
proof (induction s rule: split_nn.induct)
  case (3 c d cs)
  show ?case
  proof (cases "c = LF \<and> d = LF")
    case True
    with 3(1) show ?thesis by (simp add: split_nn_nonempty)
  next
    case False
    note ih = 3(2) [OF False]
    obtain p ps where pps: "split_nn (d # cs) = p # ps"
      using split_nn_nonempty [of "d # cs"] by (cases "split_nn (d # cs)") auto
    have whole: "split_nn (c # d # cs) = (c # p) # ps"
      by (rule split_nn_other [OF False pps])
    show ?thesis
    proof (cases ps)
      case Nil
      with pps have p: "p = d # cs" by (simp add: split_nn_single)
      from whole Nil p have "split_nn (c # d # cs) = [c # d # cs]" by simp
      then show ?thesis by simp
    next
      case (Cons q qs)
      with ih pps whole show ?thesis by simp
    qed
  qed
qed simp_all

lemma split_nn_set: "set (concat (split_nn s)) \<subseteq> set s"
proof (induction s rule: split_nn.induct)
  case (3 c d cs)
  show ?case
  proof (cases "c = LF \<and> d = LF")
    case True
    with 3(1) show ?thesis by auto
  next
    case False
    obtain p ps where pps: "split_nn (d # cs) = p # ps"
      using split_nn_nonempty [of "d # cs"] by (cases "split_nn (d # cs)") auto
    have whole: "split_nn (c # d # cs) = (c # p) # ps"
      by (rule split_nn_other [OF False pps])
    from 3(2) [OF False] pps show ?thesis unfolding whole by auto
  qed
qed simp_all

lemma last_split_nn_no_cr: "CR \<notin> set s \<Longrightarrow> CR \<notin> set (last (split_nn s))"
proof -
  assume a: "CR \<notin> set s"
  have "last (split_nn s) \<in> set (split_nn s)"
    by (simp add: split_nn_nonempty)
  then have "set (last (split_nn s)) \<subseteq> set (concat (split_nn s))" by auto
  with split_nn_set [of s] a show ?thesis by blast
qed

lemma remove_cr_append: "remove_cr (a @ b) = remove_cr a @ remove_cr b"
  by (simp add: remove_cr_def)

lemma remove_cr_id: "CR \<notin> set s \<Longrightarrow> remove_cr s = s"
  by (induction s) (auto simp: remove_cr_def)

lemma remove_cr_no_cr: "CR \<notin> set (remove_cr s)"
  by (simp add: remove_cr_def)


lemma map_filter_append: "List.map_filter f (xs @ ys) = List.map_filter f xs @ List.map_filter f ys"
  by (simp add: List.map_filter_def)

lemma read_loop_events:
  "split_nn buffer = [buffer] \<Longrightarrow> CR \<notin> set buffer \<Longrightarrow>
   read_loop parse buffer chunks = events_of parse (buffer @ concat chunks)"
proof (induction chunks arbitrary: buffer)
  case Nil
  then show ?case by (simp add: events_of_def remove_cr_id List.map_filter_def)
next
  case (Cons v rest)
  let ?x = "remove_cr (buffer @ v)"
  let ?b = "last (split_nn ?x)"
  have clean: "split_nn ?b = [?b]" "CR \<notin> set ?b"
    by (rule split_nn_last_clean) (rule last_split_nn_no_cr [OF remove_cr_no_cr])
  have "remove_cr ((buffer @ v) @ concat rest) = ?x @ remove_cr (concat rest)"
    by (rule remove_cr_append)
  then have "split_nn (remove_cr (buffer @ concat (v # rest)))
        = butlast (split_nn ?x) @ split_nn (?b @ remove_cr (concat rest))"
    by (simp add: split_nn_append [symmetric])
  also have "?b @ remove_cr (concat rest) = remove_cr (?b @ concat rest)"
    using remove_cr_append [of ?b "concat rest"] remove_cr_id [OF clean(2)] by metis
  finally have "butlast (split_nn (remove_cr (buffer @ concat (v # rest))))
        = butlast (split_nn ?x) @ butlast (split_nn (remove_cr (?b @ concat rest)))"
    by (simp add: butlast_append split_nn_nonempty)
  then have "events_of parse (buffer @ concat (v # rest))
        = List.map_filter (handle_message parse) (butlast (split_nn ?x))
          @ events_of parse (?b @ concat rest)"
    by (simp add: events_of_def map_filter_append)
  with Cons.IH [OF clean] show ?case by (simp add: Let_def)
qed



lemma read_loop_start: "read_loop parse [] chunks = events_of parse (concat chunks)"
  using read_loop_events [of "[]" parse chunks] by simp

lemma handleStreamingResponse_events:
  "handleStreamingResponse parse (r\<lparr>resp_body := Some chunks\<rparr>)
     = (if resp_ok r then (events_of parse (concat chunks), None)
        else ([], Some (PlainError (''HTTP error '' @ int_to_dec (resp_status r) @ '': ''
                       @ resp_statusText r @ '' - Failed to establish stream.''))))"
  by (simp add: handleStreamingResponse_def read_loop_start resp_ok_def)

text \<open>
  C3.  Whatever the chunks into which the payload of a response is cut, at any offsets,
  the decoder yields the same events in the same order, and ends the same way, as on
  the whole payload delivered as one chunk.
\<close>

theorem stream_chunking_invariant:
  "handleStreamingResponse parse (r\<lparr>resp_body := Some chunks\<rparr>)
     = handleStreamingResponse parse (r\<lparr>resp_body := Some [concat chunks]\<rparr>)"
  by (simp add: handleStreamingResponse_events)

theorem stream_chunking_invariant_witness:
  \<open>handleStreamingResponse json_parse
      (\<lparr>resp_status = 200, resp_statusText = ''OK'', resp_body = None\<rparr>
         \<lparr>resp_body := Some [''data: {"jsonrpc":"2.0","res'', ''ult":1}'' @ [LF],
                              [LF] @ ''data: {"jsonrpc":"2.0","result":2}'' @ [LF, LF]]\<rparr>)
    = handleStreamingResponse json_parse
      (\<lparr>resp_status = 200, resp_statusText = ''OK'', resp_body = None\<rparr>
         \<lparr>resp_body := Some [concat [''data: {"jsonrpc":"2.0","res'', ''ult":1}'' @ [LF],
                              [LF] @ ''data: {"jsonrpc":"2.0","result":2}'' @ [LF, LF]]]\<rparr>)
    \<and> handleStreamingResponse json_parse
      (\<lparr>resp_status = 200, resp_statusText = ''OK'', resp_body = None\<rparr>
         \<lparr>resp_body := Some [''data: {"jsonrpc":"2.0","res'', ''ult":1}'' @ [LF],
                              [LF] @ ''data: {"jsonrpc":"2.0","result":2}'' @ [LF, LF]]\<rparr>)
    = ([JNum 1, JNum 2], None)\<close>
  (is "?A = ?B \<and> ?A = ?C")
proof (rule conjI)
  show "?A = ?B" by (rule stream_chunking_invariant)
  show "?A = ?C" by code_simp
qed



subsection \<open>Streams of whole frames\<close>












text \<open>The decoder never ends with an \<^verbatim>\<open>RpcError\<close>, whatever the stream holds.\<close>

lemma handleStreamingResponse_never_throws_RpcError:
  "snd (handleStreamingResponse parse r) \<noteq> Some (RpcError c m d)"
  by (simp add: handleStreamingResponse_def split: option.split)



subsection \<open>Malformed frames\<close>



subsection \<open>Error frames\<close>





section \<open>Properties of the single calls\<close>

subsection \<open>Failures reported by the server\<close>

lemma network_failure_error_body:
  assumes "map_of body ''error'' = Some (JObj err)"
    and "map_of err ''code'' = Some (JNum c)" and "c \<noteq> 0"
    and "map_of err ''message'' = Some (JStr m)" and "m \<noteq> []"
  shows "network_failure (HttpFailure msg st stText (JObj body))
           = RpcError (Some (JNum c)) (''Network error: '' @ m) (Cause (PlainError msg))"
  using assms by (simp add: Let_def)

text \<open>
  C2 (as the code has it).  When a single call is answered with a status that is not
  2xx and a body that holds an error object with a code other than 0 and a message
  that is not empty, the call fails with an \<^verbatim>\<open>RpcError\<close> whose code is the code of the
  server and whose message is the text \<^verbatim>\<open>Network error: \<close> followed by the message of
  the server.
\<close>

theorem http_failure_error_surfaced:
  assumes "post (baseUrl cl)
             \<lparr>req_jsonrpc = ''2.0'', req_id = generateRequestId env,
              req_method = rpc_method, req_params = params\<rparr> ''application/json''
           = AxiosReject (HttpFailure msg st stText (JObj body))"
    and "map_of body ''error'' = Some (JObj err)"
    and "map_of err ''code'' = Some (JNum c)" and "c \<noteq> 0"
    and "map_of err ''message'' = Some (JStr m)" and "m \<noteq> []"
  shows "snd (single_call rpc_method env post parse stringify cl params)
           = Inl (RpcError (Some (JNum c)) (''Network error: '' @ m) (Cause (PlainError msg)))"
proof -
  have "snd (makeHttpRequest env post stringify cl rpc_method params ''application/json'')
          = Inl (network_failure (HttpFailure msg st stText (JObj body)))"
    using assms(1) by (simp add: makeHttpRequest_def Let_def)
  then have "snd (single_call rpc_method env post parse stringify cl params)
          = Inl (network_failure (HttpFailure msg st stText (JObj body)))"
    by (cases "makeHttpRequest env post stringify cl rpc_method params ''application/json''")
       (simp add: single_call_def)
  then show ?thesis
    by (simp only: network_failure_error_body [OF assms(2-6)])
qed

theorem http_failure_error_surfaced_witness:
  "task_not_found_server (baseUrl local_client)
      \<lparr>req_jsonrpc = ''2.0'', req_id = generateRequestId (legacy_env 1700000000000),
       req_method = ''tasks/get'', req_params = JObj [(''id'', JStr ''t1'')]\<rparr> ''application/json''
     = AxiosReject (HttpFailure ''Request failed with status code 404'' 404 ''Not Found''
         (JObj [(''error'', JObj [(''code'', JNum (- 32000)),
                                  (''message'', JStr ''task not found'')])]))
   \<and> map_of [(''error'', JObj [(''code'', JNum (- 32000)), (''message'', JStr ''task not found'')])]
        ''error''
     = Some (JObj [(''code'', JNum (- 32000)), (''message'', JStr ''task not found'')])
   \<and> map_of [(''code'', JNum (- 32000)), (''message'', JStr ''task not found'')] ''code''
     = Some (JNum (- 32000))
   \<and> (- 32000 :: int) \<noteq> 0
   \<and> map_of [(''code'', JNum (- 32000)), (''message'', JStr ''task not found'')] ''message''
     = Some (JStr ''task not found'')
   \<and> ''task not found'' \<noteq> []
   \<and> snd (getTask (legacy_env 1700000000000) task_not_found_server json_parse json_stringify
             local_client (JObj [(''id'', JStr ''t1'')]))
     = Inl (RpcError (Some (JNum (- 32000))) (''Network error: '' @ ''task not found'')
             (Cause (PlainError ''Request failed with status code 404'')))"
proof -
  have h1: "task_not_found_server (baseUrl local_client)
      \<lparr>req_jsonrpc = ''2.0'', req_id = generateRequestId (legacy_env 1700000000000),
       req_method = ''tasks/get'', req_params = JObj [(''id'', JStr ''t1'')]\<rparr> ''application/json''
     = AxiosReject (HttpFailure ''Request failed with status code 404'' 404 ''Not Found''
         (JObj [(''error'', JObj [(''code'', JNum (- 32000)),
                                  (''message'', JStr ''task not found'')])]))"
    by (simp add: task_not_found_server_def)
  have h2: "map_of [(''error'', JObj [(''code'', JNum (- 32000)), (''message'', JStr ''task not found'')])]
        ''error''
     = Some (JObj [(''code'', JNum (- 32000)), (''message'', JStr ''task not found'')])"
    by simp
  have h3: "map_of [(''code'', JNum (- 32000)), (''message'', JStr ''task not found'')] ''code''
     = Some (JNum (- 32000))"
    by simp
  have h4: "(- 32000 :: int) \<noteq> 0" by simp
  have h5: "map_of [(''code'', JNum (- 32000)), (''message'', JStr ''task not found'')] ''message''
     = Some (JStr ''task not found'')"
    by simp
  have h6: "''task not found'' \<noteq> []" by simp
  note c = http_failure_error_surfaced
      [where post = task_not_found_server and cl = local_client
         and env = "legacy_env 1700000000000" and rpc_method = "''tasks/get''"
         and params = "JObj [(''id'', JStr ''t1'')]" and parse = json_parse
         and stringify = json_stringify,
       OF h1 h2 h3 h4 h5 h6, folded getTask_def]
  show ?thesis
    by (intro conjI h1 h2 h3 h4 h5 h6 c)
qed

text \<open>
  The scenario of the claim: \<^verbatim>\<open>getTask\<close> against a server that answers 404 with the
  error body.  The message of the error is not the message of the server alone.
\<close>

theorem getTask_message_is_prefixed:
  "snd (getTask (legacy_env 1700000000000) task_not_found_server json_parse json_stringify
          local_client (JObj [(''id'', JStr ''t1'')]))
     = Inl (RpcError (Some (JNum (- 32000))) ''Network error: task not found''
             (Cause (PlainError ''Request failed with status code 404'')))
   \<and> snd (getTask (legacy_env 1700000000000) task_not_found_server json_parse json_stringify
          local_client (JObj [(''id'', JStr ''t1'')]))
     \<noteq> Inl (RpcError (Some (JNum (- 32000))) ''task not found''
             (Cause (PlainError ''Request failed with status code 404'')))"
  by code_simp

subsection \<open>Results\<close>





subsection \<open>Request identifiers\<close>

lemma sent_request_id:
  "req_id (fst (single_call method env post parse stringify cl params)) = generateRequestId env"
  by (cases "post (baseUrl cl)
               \<lparr>req_jsonrpc = ''2.0'', req_id = generateRequestId env,
                req_method = method, req_params = params\<rparr> ''application/json''")
     (simp_all add: single_call_def makeHttpRequest_def Let_def)

text \<open>
  C5 (what the code does).  On a platform without \<^verbatim>\<open>crypto.randomUUID\<close> the
  identifier of a request is the reading of the clock in milliseconds: two calls that
  read the same millisecond send the same identifier, whatever their methods and
  parameters.
\<close>

theorem fallback_ids_collide:
  assumes "env_randomUUID env1 = None" and "env_randomUUID env2 = None"
    and "env_now env1 = env_now env2"
  shows "req_id (fst (single_call method1 env1 post parse stringify cl params1))
         = req_id (fst (single_call method2 env2 post parse stringify cl params2))"
  using assms by (simp add: sent_request_id generateRequestId_def)

theorem fallback_ids_collide_witness:
  "env_randomUUID (legacy_env 1700000000000) = None
   \<and> env_now (legacy_env 1700000000000) = env_now (legacy_env 1700000000000)
   \<and> req_id (fst (getTask (legacy_env 1700000000000) task_not_found_server json_parse
                     json_stringify local_client (JObj [(''id'', JStr ''t1'')])))
     = req_id (fst (sendTask (legacy_env 1700000000000) task_not_found_server json_parse
                     json_stringify local_client (JObj [(''id'', JStr ''t2'')])))
   \<and> req_id (fst (getTask (legacy_env 1700000000000) task_not_found_server json_parse
                     json_stringify local_client (JObj [(''id'', JStr ''t1'')])))
     = IdNumber 1700000000000"
proof -
  have h1: "env_randomUUID (legacy_env 1700000000000) = None"
    by (simp add: legacy_env_def)
  have h3: "env_now (legacy_env 1700000000000) = env_now (legacy_env 1700000000000)"
    by simp
  have c: "req_id (fst (getTask (legacy_env 1700000000000) task_not_found_server json_parse
                     json_stringify local_client (JObj [(''id'', JStr ''t1'')])))
     = req_id (fst (sendTask (legacy_env 1700000000000) task_not_found_server json_parse
                     json_stringify local_client (JObj [(''id'', JStr ''t2'')])))"
    unfolding getTask_def sendTask_def by (rule fallback_ids_collide [OF h1 h1 h3])
  have v: "req_id (fst (getTask (legacy_env 1700000000000) task_not_found_server json_parse
                     json_stringify local_client (JObj [(''id'', JStr ''t1'')])))
     = IdNumber 1700000000000"
    by (simp add: getTask_def sent_request_id generateRequestId_def legacy_env_def)
  show ?thesis
    by (intro conjI h1 h3 c v)
qed



section \<open>Properties of the agent card\<close>

lemma agentCard_fetch_fails:
  assumes "\<not> truthy (cachedAgentCard cl)" and "\<forall>a. get (cardUrl cl) \<noteq> GetOk a"
  shows "\<exists>e. fst (agentCard get cl) = Inl e"
  using assms
  by (cases "get (cardUrl cl)") (auto simp: agentCard_def agentCard_cached_def)

lemma supports_resolves: "\<exists>b. fst (supports get cl capability) = Inr b"
proof (cases "supports_try get cl capability")
  case (fields res cl' n)
  then show ?thesis by (cases res) (auto simp: supports_def)
qed

lemma supports_false_on_failure:
  assumes "fst (agentCard get cl) = Inl e"
  shows "fst (supports get cl capability) = Inr False"
proof (cases "agentCard get cl")
  case (fields res cl' n)
  with assms have "res = Inl e" by simp
  with fields show ?thesis by (simp add: supports_def supports_try_def)
qed

text \<open>
  C8.  \<^verbatim>\<open>supports\<close> resolves for every client, network and capability argument; when
  the cache is empty and the fetch of the card does not succeed, it resolves with
  \<^verbatim>\<open>false\<close>.
\<close>

theorem supports_never_fails:
  "\<exists>b. fst (supports get cl capability) = Inr b
       \<and> (\<not> truthy (cachedAgentCard cl) \<and> (\<forall>a. get (cardUrl cl) \<noteq> GetOk a) \<longrightarrow> b = False)"
proof (cases "\<not> truthy (cachedAgentCard cl) \<and> (\<forall>a. get (cardUrl cl) \<noteq> GetOk a)")
  case True
  then obtain e where "fst (agentCard get cl) = Inl e"
    using agentCard_fetch_fails [of cl get] by blast
  then have "fst (supports get cl capability) = Inr False"
    by (rule supports_false_on_failure)
  then show ?thesis by blast
next
  case False
  with supports_resolves [of get cl capability] show ?thesis by blast
qed

theorem supports_never_fails_witness:
  "\<not> truthy (cachedAgentCard local_client)
   \<and> unreachable_server (cardUrl local_client) = GetFailure ''Network Error''
   \<and> fst (supports unreachable_server local_client ''streaming'') = Inr False"
proof -
  have h1: "\<not> truthy (cachedAgentCard local_client)"
    by (simp add: local_client_def new_client_def)
  have h2: "unreachable_server (cardUrl local_client) = GetFailure ''Network Error''"
    by (simp add: unreachable_server_def)
  then have h2': "\<forall>a. unreachable_server (cardUrl local_client) \<noteq> GetOk a"
    by simp
  from supports_never_fails [of unreachable_server local_client "''streaming''"] h1 h2'
  have c: "fst (supports unreachable_server local_client ''streaming'') = Inr False"
    by blast
  show ?thesis
    by (intro conjI h1 h2 c)
qed

subsection \<open>Fetches of the card\<close>


text \<open>
  The two parts of a call that is scheduled without anything between them are one
  call of \<^verbatim>\<open>agentCard\<close>, and \<^verbatim>\<open>supports\<close> issues the fetches of the call of
  \<^verbatim>\<open>agentCard\<close> it makes.
\<close>

lemma supports_fetches: "snd (snd (supports get cl capability)) = snd (snd (agentCard get cl))"
proof (cases "agentCard get cl")
  case (fields res cl' n)
  then show ?thesis
    by (cases res) (auto simp: supports_def supports_try_def split: sum.splits)
qed

lemma call_runs_as_agentCard:
  assumes "i < length (sys_calls s)" and "sys_calls s ! i = NotStarted"
  shows "run_schedule net s [i, i]
         = (case agentCard (\<lambda>url. net i) (sys_client s) of
              (res, cl', n) \<Rightarrow>
                s\<lparr>sys_client := cl', sys_fetches := sys_fetches s + n,
                  sys_calls := (sys_calls s)[i := Settled res]\<rparr>)"
proof (cases "agentCard_cached (sys_client s)")
  case None
  obtain res cl' where st: "agentCard_settle (sys_client s) (net i) = (res, cl')"
    by (cases "agentCard_settle (sys_client s) (net i)")
  from assms None st show ?thesis
    by (simp add: run_schedule_def call_step_def agentCard_def)
next
  case (Some a)
  with assms show ?thesis
    by (simp add: run_schedule_def call_step_def agentCard_def)
qed






section \<open>Properties of the hardware wallet\<close>

text \<open>
  C9.  When the wallet is not connected (\<^verbatim>\<open>isConnected\<close> is false or \<^verbatim>\<open>address\<close> is
  \<^verbatim>\<open>null\<close>), \<^verbatim>\<open>signAndExecuteTransaction\<close> and \<^verbatim>\<open>signAndExecuteSuiTransaction\<close> fail with
  the error \<^verbatim>\<open>Wallet not connected\<close> and have no effect: no transaction is created or
  built, no order is placed and the device is not asked to sign.
\<close>

theorem not_connected_fails_first:
  assumes "\<not> isConnected w \<or> address w = None"
  shows "signAndExecuteTransaction co w transactionData
           = ([], Inl (PlainError ''Wallet not connected''))
         \<and> signAndExecuteSuiTransaction co w actions
           = ([], Inl (PlainError ''Wallet not connected''))"
  using assms
  by (auto simp: signAndExecuteTransaction_def signAndExecuteSuiTransaction_def)

theorem not_connected_fails_first_witness:
  "(\<not> isConnected fresh_wallet \<or> address fresh_wallet = None) = True
   \<and> signAndExecuteTransaction willing_collaborators fresh_wallet buy_order
     = ([], Inl (PlainError ''Wallet not connected''))
   \<and> signAndExecuteSuiTransaction willing_collaborators fresh_wallet one_transfer
     = ([], Inl (PlainError ''Wallet not connected''))"
proof -
  have h: "\<not> isConnected fresh_wallet \<or> address fresh_wallet = None"
    by (simp add: fresh_wallet_def)
  note c = not_connected_fails_first [OF h, of willing_collaborators buy_order one_transfer]
  from h have h': "(\<not> isConnected fresh_wallet \<or> address fresh_wallet = None) = True"
    by simp
  show ?thesis
    by (intro conjI h' c [THEN conjunct1] c [THEN conjunct2])
qed

section \<open>Properties of the trading analysis\<close>



lemma rawScore_finite:
  assumes "tp_volume24h p = Fin v" and "tp_change24h p = Fin c"
    and "tp_volatility p = Fin vo" and "tp_liquidity p = Fin l"
  shows "rawScore p \<noteq> NaN"
  using assms by (simp add: rawScore_def js_sub_def)





end
